theory Spec2Isabelle
  imports Main
begin

section \<open>The health checker of scripts/check\_mcp\_servers.py\<close>

text \<open>
  The script runs seven environment checks in a fixed order, prints diagnostics, and
  turns the collected booleans into a process exit code. Everything it reads from the
  machine (interpreter version, importable modules, the file system, what a spawned
  program does) is a field of the record \<open>host\<close>; everything it can change (the
  environment mapping, the table of spawned processes, the text written to standard
  output) is a field of the record \<open>state\<close>. A function of the script becomes a
  function from a state to an outcome and the new state; the outcome is \<open>Inr\<close> of the
  returned value or \<open>Inl\<close> of the exception that leaves the function.
\<close>

subsection \<open>Exceptions\<close>

text \<open>
  The exception classes the script names or provokes. \<open>ImportError\<close> stands for the class
  and its subclass ModuleNotFoundError, \<open>OtherException\<close> for every other subclass of
  Exception (UnicodeEncodeError, UnicodeDecodeError, FileNotFoundError, RuntimeError and
  so on). KeyboardInterrupt derives from BaseException only, so a handler written
  \<^verbatim>\<open>except Exception\<close> lets it pass. SystemExit raised by foreign code is outside
  the model.
\<close>

datatype exn =
    ImportError string
  | AttributeError string
  | TimeoutExpired string
  | UnboundLocalError string
  | OtherException string
  | KeyboardInterrupt

fun is_Exception :: "exn \<Rightarrow> bool" where
  "is_Exception KeyboardInterrupt = False"
| "is_Exception _ = True"

fun is_ImportError :: "exn \<Rightarrow> bool" where
  "is_ImportError (ImportError _) = True"
| "is_ImportError _ = False"

fun is_AttributeError :: "exn \<Rightarrow> bool" where
  "is_AttributeError (AttributeError _) = True"
| "is_AttributeError _ = False"

fun exn_str :: "exn \<Rightarrow> string" where
  "exn_str (ImportError m) = m"
| "exn_str (AttributeError m) = m"
| "exn_str (TimeoutExpired m) = m"
| "exn_str (UnboundLocalError m) = m"
| "exn_str (OtherException m) = m"
| "exn_str KeyboardInterrupt = []"

subsection \<open>Strings\<close>

text \<open>Python's \<^verbatim>\<open>str.lower\<close>, \<^verbatim>\<open>str.strip\<close> and \<^verbatim>\<open>str.split('.')\<close> on ASCII text,
  and \<^verbatim>\<open>str\<close> of an integer.\<close>

definition lower_char :: "char \<Rightarrow> char" where
  "lower_char c =
     (case map_of (zip ''ABCDEFGHIJKLMNOPQRSTUVWXYZ'' ''abcdefghijklmnopqrstuvwxyz'') c of
        None \<Rightarrow> c
      | Some l \<Rightarrow> l)"

definition lower :: "string \<Rightarrow> string" where
  "lower s = map lower_char s"

definition is_space :: "char \<Rightarrow> bool" where
  "is_space c =
     (c \<in> set [CHR '' '', CHR 0x09, CHR 0x0A, CHR 0x0B, CHR 0x0C, CHR 0x0D,
                CHR 0x1C, CHR 0x1D, CHR 0x1E, CHR 0x1F])"

definition strip :: "string \<Rightarrow> string" where
  "strip s = rev (dropWhile is_space (rev (dropWhile is_space s)))"

fun split_on :: "char \<Rightarrow> string \<Rightarrow> string list" where
  "split_on c [] = [[]]"
| "split_on c (x # xs) =
     (if x = c then [] # split_on c xs
      else (case split_on c xs of [] \<Rightarrow> [[x]] | y # ys \<Rightarrow> (x # y) # ys))"

text \<open>\<open>digit_char\<close> is only ever applied to a number below ten.\<close>

definition digit_char :: "nat \<Rightarrow> char" where
  "digit_char d = ''0123456789'' ! d"

function str_nat :: "nat \<Rightarrow> string" where
  "str_nat n = (if n < 10 then [digit_char n] else str_nat (n div 10) @ [digit_char (n mod 10)])"
  by pat_completeness auto
termination
  by (relation "measure (\<lambda>n. n)") auto

declare str_nat.simps [simp del]

definition str_int :: "int \<Rightarrow> string" where
  "str_int i = (if i < 0 then CHR ''-'' # str_nat (nat (- i)) else str_nat (nat i))"

definition quoted :: "string \<Rightarrow> string" where
  "quoted s = CHR 0x27 # s @ [CHR 0x27]"

text \<open>\<^verbatim>\<open>str\<close> of a list of strings that contain no quote, backslash or control
  character, as the message of TimeoutExpired shows the command.\<close>

fun join_comma :: "string list \<Rightarrow> string" where
  "join_comma [] = []"
| "join_comma [x] = x"
| "join_comma (x # y # ys) = x @ '', '' @ join_comma (y # ys)"

definition str_list :: "string list \<Rightarrow> string" where
  "str_list xs = ''['' @ join_comma (map quoted xs) @ '']''"

subsection \<open>Printed lines\<close>

text \<open>
  One constructor for each printing helper of the script; \<open>Plain\<close> is a bare
  \<^verbatim>\<open>print\<close>, \<open>Traceback\<close> is \<^verbatim>\<open>traceback.print_exc()\<close>. The colour codes and the
  leading glyph that the helpers add are not part of the text kept here.
\<close>

datatype line =
    Plain string
  | Header string
  | Success string
  | Error string
  | Warning string
  | Info string
  | Traceback exn

subsection \<open>Modules, programs and processes\<close>

text \<open>
  A Python object as far as \<^verbatim>\<open>getattr\<close> sees it: \<open>None\<close>, or something with named
  attributes. Looking an attribute up either yields its value or raises: a module-level
  \<^verbatim>\<open>__getattr__\<close> or a lazy import behind the name may raise any exception.
\<close>

datatype pyobj = PyNone | Module "(string \<times> (exn + pyobj)) list"

text \<open>
  \<^verbatim>\<open>getattr(mod, part, None)\<close>: the attribute's value, and \<open>None\<close> when the name is
  absent or the lookup raises AttributeError, which is the one exception the default
  absorbs. Any other exception raised by the lookup leaves the call.
\<close>

fun getattr_default :: "pyobj \<Rightarrow> string \<Rightarrow> exn + pyobj" where
  "getattr_default PyNone name = Inr PyNone"
| "getattr_default (Module attrs) name =
     (case map_of attrs name of
        None \<Rightarrow> Inr PyNone
      | Some (Inr v) \<Rightarrow> Inr v
      | Some (Inl e) \<Rightarrow> if is_AttributeError e then Inr PyNone else Inl e)"

text \<open>
  What a spawned program does, as far as the probe can observe it: \<open>self_exit\<close> is the
  exit status it reaches by itself within the probe duration (\<open>None\<close>: it stays
  resident); \<open>term_grace\<close> is the number of two-second waits it survives after the
  termination request (0: it exits within the first wait) and \<open>term_status\<close> the exit
  status it then leaves with. \<open>stdout_data\<close> and \<open>stderr_data\<close> are what it wrote,
  decoded; \<open>decode_error\<close> is the exception that reading its output back as text
  raises (UnicodeDecodeError when the bytes are not valid in the checker's locale
  encoding), \<open>None\<close> when the output decodes.
\<close>

record program =
  self_exit :: "int option"
  stdout_data :: string
  stderr_data :: string
  decode_error :: "exn option"
  term_grace :: nat
  term_status :: int

record process =
  argv :: "string list"
  penv :: "string \<Rightarrow> string option"
  prog :: program
  status :: "int option"
  sigterm :: bool

text \<open>
  \<^verbatim>\<open>sys.stdout\<close>: \<open>NoStream\<close> when the interpreter has no standard output (the
  object is \<open>None\<close>), otherwise a stream with its \<^verbatim>\<open>encoding\<close> attribute and with the
  exception that writing one of the report's four glyphs (U+2139, U+2713, U+2717,
  U+26A0) raises on it: UnicodeEncodeError on a strict stream whose codec has none of
  them, \<open>None\<close> when the stream encodes them. A codec has all four or none.
\<close>

datatype stream = NoStream | Stream "string option" "exn option"

text \<open>\<open>getcwd\<close> is \<^verbatim>\<open>os.getcwd()\<close>, which raises when the working directory has been
  removed.\<close>

record host =
  version_major :: nat
  version_minor :: nat
  version_micro :: nat
  version :: string
  executable :: string
  sys_stdout :: stream
  stderr_encoding :: "string option"
  default_encoding :: string
  sys_path :: "string list"
  getcwd :: "exn + string"
  path_exists :: "string \<Rightarrow> bool"
  import_module :: "string \<Rightarrow> exn + pyobj"
  subprocess_run :: "string list \<Rightarrow> exn + string"
  popen :: "string list \<Rightarrow> (string \<Rightarrow> string option) \<Rightarrow> exn + program"

record state =
  environ :: "string \<Rightarrow> string option"
  procs :: "process list"
  popen_calls :: "string list list"
  out :: "line list"

type_synonym 'a outcome = "(exn + 'a) \<times> state"

text \<open>\<^verbatim>\<open>sys.stdout.encoding\<close> where there is a stream, and what writing a glyph to
  standard output raises. \<^verbatim>\<open>print\<close> does nothing and raises nothing when there is no
  stream.\<close>

definition stdout_encoding :: "host \<Rightarrow> string option" where
  "stdout_encoding h = (case sys_stdout h of NoStream \<Rightarrow> None | Stream enc err \<Rightarrow> enc)"

definition glyph_error :: "host \<Rightarrow> exn option" where
  "glyph_error h = (case sys_stdout h of NoStream \<Rightarrow> None | Stream enc err \<Rightarrow> err)"

definition stdout_attribute_error :: exn where
  "stdout_attribute_error =
     AttributeError (quoted ''NoneType'' @ '' object has no attribute '' @ quoted ''encoding'')"

definition encodes_report :: "host \<Rightarrow> bool" where
  "encodes_report h = (sys_stdout h \<noteq> NoStream \<and> glyph_error h = None)"

subsection \<open>Printing helpers\<close>

text \<open>
  \<open>out\<close> collects the calls of \<^verbatim>\<open>print\<close> that completed. A run writes its first glyph
  at line 54, and the stream takes all four glyphs or none, so that is where a run finds
  out: \<open>check_python_version\<close> raises there on a stream that cannot encode them, and
  so does \<open>check_encoding\<close>, the check whose subject is the stream, at its own first
  glyph in line 122. The other functions of the script are reached in a run only after
  line 54 has printed; they are modelled on a stream that takes the glyphs.
\<close>

definition emit :: "line \<Rightarrow> state \<Rightarrow> state" where
  "emit l s = s\<lparr>out := out s @ [l]\<rparr>"

definition print_header :: "string \<Rightarrow> state \<Rightarrow> state" where
  "print_header text = emit (Header text)"

definition print_success :: "string \<Rightarrow> state \<Rightarrow> state" where
  "print_success text = emit (Success text)"

definition print_error :: "string \<Rightarrow> state \<Rightarrow> state" where
  "print_error text = emit (Error text)"

definition print_warning :: "string \<Rightarrow> state \<Rightarrow> state" where
  "print_warning text = emit (Warning text)"

definition print_info :: "string \<Rightarrow> state \<Rightarrow> state" where
  "print_info text = emit (Info text)"

subsection \<open>Process operations\<close>

text \<open>
  \<^verbatim>\<open>subprocess.Popen\<close>: the call is recorded, and either raises or adds a running
  process to the table; the handle returned is the index of the new entry.
\<close>

definition Popen :: "host \<Rightarrow> string list \<Rightarrow> (string \<Rightarrow> string option) \<Rightarrow> state \<Rightarrow> nat outcome" where
  "Popen h args env s =
     (let s1 = s\<lparr>popen_calls := popen_calls s @ [args]\<rparr>
      in case popen h args env of
           Inl e \<Rightarrow> (Inl e, s1)
         | Inr p \<Rightarrow>
             (Inr (length (procs s1)),
              s1\<lparr>procs := procs s1 @
                 [\<lparr>argv = args, penv = env, prog = p, status = None, sigterm = False\<rparr>]\<rparr>))"

text \<open>\<^verbatim>\<open>time.sleep\<close>: during the pause every running process that exits by itself does so.\<close>

definition elapse :: "process \<Rightarrow> process" where
  "elapse p =
     (case status p of
        Some c \<Rightarrow> p
      | None \<Rightarrow> (case self_exit (prog p) of None \<Rightarrow> p | Some c \<Rightarrow> p\<lparr>status := Some c\<rparr>))"

definition time_sleep :: "nat \<Rightarrow> state \<Rightarrow> state" where
  "time_sleep seconds s = s\<lparr>procs := map elapse (procs s)\<rparr>"

definition poll :: "nat \<Rightarrow> state \<Rightarrow> int option" where
  "poll pid s = status (procs s ! pid)"

definition terminate :: "nat \<Rightarrow> state \<Rightarrow> state" where
  "terminate pid s =
     (let p = procs s ! pid
      in case status p of
           Some c \<Rightarrow> s
         | None \<Rightarrow> s\<lparr>procs := (procs s)[pid := p\<lparr>sigterm := True\<rparr>]\<rparr>)"

text \<open>
  \<^verbatim>\<open>process.wait(timeout=2)\<close>: returns the exit status of a process that has exited or
  exits within the wait, and raises TimeoutExpired otherwise.
\<close>

definition timeout_expired :: "process \<Rightarrow> nat \<Rightarrow> exn" where
  "timeout_expired p seconds =
     TimeoutExpired (''Command '' @ quoted (str_list (argv p)) @ '' timed out after '' @
                     str_nat seconds @ '' seconds'')"

definition wait :: "nat \<Rightarrow> nat \<Rightarrow> state \<Rightarrow> int outcome" where
  "wait pid seconds s =
     (let p = procs s ! pid
      in case status p of
           Some c \<Rightarrow> (Inr c, s)
         | None \<Rightarrow>
             if sigterm p then
               (if term_grace (prog p) = 0
                then (Inr (term_status (prog p)),
                      s\<lparr>procs := (procs s)[pid := p\<lparr>status := Some (term_status (prog p))\<rparr>]\<rparr>)
                else (Inl (timeout_expired p seconds),
                      s\<lparr>procs := (procs s)
                         [pid := p\<lparr>prog := (prog p)\<lparr>term_grace := term_grace (prog p) - 1\<rparr>\<rparr>]\<rparr>))
             else (Inl (timeout_expired p seconds), s))"

text \<open>
  \<^verbatim>\<open>process.communicate()\<close> on a process that has exited, the pipes having been opened
  with \<^verbatim>\<open>text=True\<close>: the captured text of both streams, or the exception that
  decoding them raises.
\<close>

definition communicate :: "nat \<Rightarrow> state \<Rightarrow> exn + string \<times> string" where
  "communicate pid s =
     (let p = prog (procs s ! pid)
      in case decode_error p of
           Some e \<Rightarrow> Inl e
         | None \<Rightarrow> Inr (stdout_data p, stderr_data p))"

subsection \<open>The checks\<close>

text \<open>
  \<^verbatim>\<open>sys.version_info >= (3, 8)\<close> compares tuples lexicographically; against a pair
  only the major and minor numbers are ever compared, and the longer tuple wins a tie.
\<close>

fun tuple_ge :: "nat list \<Rightarrow> nat list \<Rightarrow> bool" where
  "tuple_ge xs [] = True"
| "tuple_ge [] (y # ys) = False"
| "tuple_ge (x # xs) (y # ys) = (if x = y then tuple_ge xs ys else y < x)"

definition version_text :: "host \<Rightarrow> string" where
  "version_text h =
     str_nat (version_major h) @ ''.'' @ str_nat (version_minor h) @ ''.'' @ str_nat (version_micro h)"

definition check_python_version :: "host \<Rightarrow> state \<Rightarrow> bool outcome" where
  "check_python_version h s =
     (let s1 = print_header ''1. Checking Python Version'' s
      in case glyph_error h of
           Some e \<Rightarrow> (Inl e, s1)
         | None \<Rightarrow>
             (let s2 = print_info (''Python version: '' @ version h) s1
              in if tuple_ge [version_major h, version_minor h, version_micro h] [3, 8]
                 then (Inr True,
                       print_success
                         (''Python '' @ version_text h @ '' meets requirements (>= 3.8)'') s2)
                 else (Inr False,
                       print_error
                         (''Python '' @ version_text h @ '' is too old. Python 3.8+ required'') s2)))"

definition check_python_path :: "host \<Rightarrow> state \<Rightarrow> bool outcome" where
  "check_python_path h s =
     (let s1 = print_header ''2. Checking Python Executable'' s;
          s2 = print_info (''Python executable: '' @ executable h) s1
      in case subprocess_run h [''python'', ''--version''] of
           Inr result_stdout \<Rightarrow>
             (Inr True,
              print_success (quoted ''python'' @ '' command available: '' @ strip result_stdout) s2)
         | Inl e \<Rightarrow>
             if is_Exception e
             then (Inr True,
                   print_info (''  Note: Use '' @ quoted ''python3'' @ '' instead on Unix/Linux systems'')
                     (print_warning (quoted ''python'' @ '' command not available: '' @ exn_str e) s2))
             else (Inl e, s2))"

definition required_packages :: "string list" where
  "required_packages =
     [''mcp'', ''mcp.server'', ''mcp.server.fastmcp'', ''anthropic'', ''openai'',
      ''google.genai'', ''aiofiles'']"

text \<open>The loop \<^verbatim>\<open>for part in parts[1:]\<close> of lines 103 to 106.\<close>

fun walk_attrs :: "string \<Rightarrow> pyobj \<Rightarrow> string list \<Rightarrow> exn + pyobj" where
  "walk_attrs package m [] = Inr m"
| "walk_attrs package m (part # rest) =
     (case getattr_default m part of
        Inl e \<Rightarrow> Inl e
      | Inr m' \<Rightarrow>
          if m' = PyNone then Inl (ImportError (''Cannot import '' @ package))
          else walk_attrs package m' rest)"

text \<open>The body of the \<^verbatim>\<open>try\<close> of lines 97 to 106, up to the success message.\<close>

definition try_import :: "host \<Rightarrow> string \<Rightarrow> exn + unit" where
  "try_import h package =
     (let parts = split_on CHR ''.'' package
      in if length parts = 1
         then (case import_module h package of Inl e \<Rightarrow> Inl e | Inr m \<Rightarrow> Inr ())
         else (case import_module h (hd parts) of
                 Inl e \<Rightarrow> Inl e
               | Inr m \<Rightarrow>
                   (case walk_attrs package m (tl parts) of Inl e \<Rightarrow> Inl e | Inr m' \<Rightarrow> Inr ())))"

text \<open>The loop over the packages, with the flag \<^verbatim>\<open>all_ok\<close> as accumulator.\<close>

fun dep_loop :: "host \<Rightarrow> string list \<Rightarrow> bool \<Rightarrow> state \<Rightarrow> bool outcome" where
  "dep_loop h [] all_ok s = (Inr all_ok, s)"
| "dep_loop h (package # rest) all_ok s =
     (case try_import h package of
        Inr u \<Rightarrow>
          dep_loop h rest all_ok
            (print_success (''Package '' @ quoted package @ '' is installed'') s)
      | Inl e \<Rightarrow>
          if is_ImportError e
          then dep_loop h rest False
                 (print_info (''  Install with: pip install '' @ hd (split_on CHR ''.'' package))
                    (print_error (''Package '' @ quoted package @ '' is NOT installed'') s))
          else (Inl e, s))"

definition check_dependencies :: "host \<Rightarrow> state \<Rightarrow> bool outcome" where
  "check_dependencies h s =
     dep_loop h required_packages True (print_header ''3. Checking Required Dependencies'' s)"

text \<open>\<^verbatim>\<open>x or "unknown"\<close>: \<open>None\<close> and the empty string are both falsy.\<close>

definition or_unknown :: "string option \<Rightarrow> string" where
  "or_unknown enc = (case enc of None \<Rightarrow> ''unknown'' | Some e \<Rightarrow> if e = [] then ''unknown'' else e)"

definition check_encoding :: "host \<Rightarrow> state \<Rightarrow> bool outcome" where
  "check_encoding h s =
     (let s0 = print_header ''4. Checking Encoding Configuration'' s
      in if sys_stdout h = NoStream then (Inl stdout_attribute_error, s0)
         else
           (let stdout_enc = or_unknown (stdout_encoding h);
                stderr_enc = or_unknown (stderr_encoding h)
            in case glyph_error h of
                 Some e \<Rightarrow> (Inl e, s0)
               | None \<Rightarrow>
                   (let s1 = print_info (''stdout encoding: '' @ stdout_enc) s0;
                        s2 = print_info (''stderr encoding: '' @ stderr_enc) s1;
                        s3 = print_info (''Default encoding: '' @ default_encoding h) s2;
                        pythonioencoding =
                          (case environ s ''PYTHONIOENCODING'' of
                             None \<Rightarrow> ''Not set'' | Some v \<Rightarrow> v);
                        s4 = print_info (''PYTHONIOENCODING: '' @ pythonioencoding) s3;
                        stdout_is_utf8 =
                          (if stdout_enc \<noteq> ''unknown'' then lower stdout_enc = ''utf-8''
                           else False);
                        env_is_utf8 =
                          (if pythonioencoding \<noteq> ''Not set''
                           then lower pythonioencoding = ''utf-8'' else False)
                    in if stdout_is_utf8 \<or> env_is_utf8
                       then (Inr True, print_success ''UTF-8 encoding is configured'' s4)
                       else (Inr False,
                             print_warning
                               ''UTF-8 encoding not set. Set PYTHONIOENCODING=utf-8'' s4))))"

definition check_pythonpath :: "host \<Rightarrow> state \<Rightarrow> bool outcome" where
  "check_pythonpath h s =
     (let s0 = print_header ''6. Checking PYTHONPATH'' s;
          pythonpath = (case environ s ''PYTHONPATH'' of None \<Rightarrow> ''Not set'' | Some v \<Rightarrow> v);
          s1 = print_info (''PYTHONPATH: '' @ pythonpath) s0
      in case getcwd h of
           Inl e \<Rightarrow> (Inl e, s1)
         | Inr current_dir \<Rightarrow>
             if current_dir \<in> set (sys_path h) \<or> ''.'' \<in> set (sys_path h)
             then (Inr True, print_success ''Current directory is in Python path'' s1)
             else (Inr False,
                   print_info ''  Set PYTHONPATH=. or add current directory to sys.path''
                     (print_warning ''Current directory not in Python path'' s1)))"

subsection \<open>The worker probe\<close>

text \<open>
  The body of the outer \<^verbatim>\<open>try\<close> of \<^verbatim>\<open>check_mcp_server\<close> (lines 153 to 186). Besides the
  outcome it returns the binding of the local variable \<^verbatim>\<open>process\<close>: \<open>None\<close> while the
  name is unbound, which is the case exactly when \<^verbatim>\<open>Popen\<close> raised. The two script
  paths of the run are relative POSIX paths, for which \<^verbatim>\<open>str(Path(p))\<close> is \<open>p\<close>.
\<close>

definition probe_body ::
  "host \<Rightarrow> string \<Rightarrow> string \<Rightarrow> nat \<Rightarrow> state \<Rightarrow> (exn + bool) \<times> nat option \<times> state" where
  "probe_body h server_script server_name timeout s =
     (case Popen h [executable h, server_script]
             ((environ s)(''PYTHONIOENCODING'' \<mapsto> ''utf-8'')) s of
        (Inl e, s1) \<Rightarrow> (Inl e, None, s1)
      | (Inr process, s1) \<Rightarrow>
          (let s2 = time_sleep timeout s1
           in case poll process s2 of
                None \<Rightarrow>
                  (let s3 = print_success (server_name @ '' started successfully'') s2;
                       s4 = terminate process s3
                   in case wait process 2 s4 of
                        (Inl e, s5) \<Rightarrow> (Inl e, Some process, s5)
                      | (Inr c, s5) \<Rightarrow> (Inr True, Some process, s5))
              | Some code \<Rightarrow>
                  (case communicate process s2 of
                     Inl e \<Rightarrow> (Inl e, Some process, s2)
                   | Inr (stdout, stderr) \<Rightarrow>
                       if code = 0
                       then
                         (let s3 = print_warning
                                     (server_name @ '' exited normally (might be waiting for input)'') s2;
                              s4 = (if stdout \<noteq> []
                                    then print_info (''stdout:'' @ [CHR 0x0A] @ take 500 stdout) s3
                                    else s3)
                          in (Inr True, Some process, s4))
                       else
                         (let s3 = print_error
                                     (server_name @ '' failed to start (exit code: '' @ str_int code @ '')'') s2;
                              s4 = (if stderr \<noteq> []
                                    then print_error (''stderr:'' @ [CHR 0x0A] @ take 500 stderr) s3
                                    else s3)
                          in (Inr False, Some process, s4)))))"

text \<open>
  The \<^verbatim>\<open>finally\<close> block (lines 191 to 197). \<open>cleanup_body\<close> is its inner \<^verbatim>\<open>try\<close>, which
  raises UnboundLocalError when \<^verbatim>\<open>process\<close> was never bound; \<open>cleanup\<close> adds the bare
  \<^verbatim>\<open>except: pass\<close>, which discards whatever the body raised.
\<close>

definition cleanup_body :: "nat option \<Rightarrow> state \<Rightarrow> unit outcome" where
  "cleanup_body process s =
     (case process of
        None \<Rightarrow> (Inl (UnboundLocalError (''local variable '' @ quoted ''process'' @ '' is not bound'')), s)
      | Some pid \<Rightarrow>
          (case poll pid s of
             Some c \<Rightarrow> (Inr (), s)
           | None \<Rightarrow>
               (case wait pid 2 (terminate pid s) of
                  (Inl e, s') \<Rightarrow> (Inl e, s')
                | (Inr c, s') \<Rightarrow> (Inr (), s'))))"

definition cleanup :: "nat option \<Rightarrow> state \<Rightarrow> state" where
  "cleanup process s = (case cleanup_body process s of (Inl e, s') \<Rightarrow> s' | (Inr u, s') \<Rightarrow> s')"

definition check_mcp_server :: "host \<Rightarrow> string \<Rightarrow> string \<Rightarrow> nat \<Rightarrow> state \<Rightarrow> bool outcome" where
  "check_mcp_server h server_script server_name timeout s =
     (let s0 = print_header (''5. Testing '' @ server_name) s
      in if \<not> path_exists h server_script
         then (Inr False, print_error (''Server script not found: '' @ server_script) s0)
         else
           (let s1 = print_info (''Testing: '' @ server_script) s0
            in case probe_body h server_script server_name timeout s1 of
                 (Inr b, process, s2) \<Rightarrow> (Inr b, cleanup process s2)
               | (Inl e, process, s2) \<Rightarrow>
                   if is_Exception e
                   then (Inr False,
                         cleanup process
                           (print_error (''Failed to test '' @ server_name @ '': '' @ exn_str e) s2))
                   else (Inl e, cleanup process s2)))"

subsection \<open>The run\<close>

text \<open>The seven calls of lines 224 to 238, with the label each result is stored under.\<close>

definition checks :: "host \<Rightarrow> (string \<times> (state \<Rightarrow> bool outcome)) list" where
  "checks h =
     [(''Python Version'', check_python_version h),
      (''Python Path'', check_python_path h),
      (''Dependencies'', check_dependencies h),
      (''Encoding'', check_encoding h),
      (''PYTHONPATH'', check_pythonpath h),
      (''Command Executor'',
         check_mcp_server h ''tools/command_executor.py'' ''Command Executor Server'' 3),
      (''Code Implementation'',
         check_mcp_server h ''tools/code_implementation_server.py'' ''Code Implementation Server'' 3)]"

text \<open>Each check runs in turn and its result is appended; an exception that leaves a check
  leaves the whole sequence, since \<^verbatim>\<open>main\<close> has no handler.\<close>

fun run_list ::
  "(string \<times> (state \<Rightarrow> bool outcome)) list \<Rightarrow> (string \<times> bool) list \<Rightarrow> state
     \<Rightarrow> (string \<times> bool) list outcome" where
  "run_list [] results s = (Inr results, s)"
| "run_list ((name, chk) # rest) results s =
     (case chk s of
        (Inl e, s') \<Rightarrow> (Inl e, s')
      | (Inr b, s') \<Rightarrow> run_list rest (results @ [(name, b)]) s')"

definition banner :: "state \<Rightarrow> state" where
  "banner s =
     emit (Plain (replicate 60 CHR ''=''))
       (emit (Plain ''  MCP Server Health Check'')
          (emit (Plain (replicate 60 CHR ''='')) s))"

definition run_checks :: "host \<Rightarrow> state \<Rightarrow> (string \<times> bool) list outcome" where
  "run_checks h s = run_list (checks h) [] (banner s)"

fun print_results :: "(string \<times> bool) list \<Rightarrow> state \<Rightarrow> state" where
  "print_results [] s = s"
| "print_results ((name, result) # rest) s =
     print_results rest
       (if result then print_success (name @ '': PASS'') s else print_error (name @ '': FAIL'') s)"

text \<open>Lines 241 to 260: the summary and the value \<^verbatim>\<open>main\<close> returns.\<close>

definition summarise :: "(string \<times> bool) list \<Rightarrow> state \<Rightarrow> int \<times> state" where
  "summarise results s =
     (let s1 = print_header ''Summary'' s;
          passed = length (filter snd results);
          total = length results;
          s2 = print_results results s1;
          s3 = emit (Plain (''Total: '' @ str_nat passed @ ''/'' @ str_nat total @ '' checks passed'')) s2
      in if passed = total
         then (0, print_success ''All checks passed! Your MCP server setup is ready.'' s3)
         else (1,
               print_info ([CHR 0x0A] @ ''For detailed troubleshooting, see: docs/TROUBLESHOOTING_MCP.md'')
                 (print_error ''Some checks failed. Please review the errors above.'' s3)))"

definition main :: "host \<Rightarrow> state \<Rightarrow> int outcome" where
  "main h s =
     (case run_checks h s of
        (Inl e, s') \<Rightarrow> (Inl e, s')
      | (Inr results, s') \<Rightarrow> (case summarise results s' of (code, s'') \<Rightarrow> (Inr code, s'')))"

text \<open>
  The block under \<^verbatim>\<open>if __name__ == "__main__"\<close>: the process exit code and the final
  state. The handler for KeyboardInterrupt comes first, the one for Exception second.
\<close>

definition script :: "host \<Rightarrow> state \<Rightarrow> int \<times> state" where
  "script h s =
     (case main h s of
        (Inr code, s') \<Rightarrow> (code, s')
      | (Inl e, s') \<Rightarrow>
          (case e of
             KeyboardInterrupt \<Rightarrow> (130, emit (Plain ''Health check interrupted by user'') s')
           | _ \<Rightarrow> (1, emit (Traceback e) (print_error (''Unexpected error: '' @ exn_str e) s'))))"

definition exit_code :: "host \<Rightarrow> state \<Rightarrow> int" where
  "exit_code h s = fst (script h s)"

subsection \<open>Resolution of a dependency, stated apart from the loop\<close>

text \<open>
  What the walk of lines 102 to 106 accepts: the top-level module imports, and every
  further name is an attribute whose lookup returns a value that is not \<open>None\<close>.
\<close>

fun attrs_not_none :: "pyobj \<Rightarrow> string list \<Rightarrow> bool" where
  "attrs_not_none m [] = True"
| "attrs_not_none m (part # rest) =
     (case getattr_default m part of
        Inl e \<Rightarrow> False
      | Inr v \<Rightarrow> v \<noteq> PyNone \<and> attrs_not_none v rest)"

definition resolves :: "host \<Rightarrow> string \<Rightarrow> bool" where
  "resolves h package =
     (case import_module h (hd (split_on CHR ''.'' package)) of
        Inl e \<Rightarrow> False
      | Inr m \<Rightarrow> attrs_not_none m (tl (split_on CHR ''.'' package)))"

text \<open>
  The specification's wording of the same notion, kept for comparison: a dotted entry
  resolves when its top-level module imports and each further name is present as an
  attribute; only an absent attribute makes it fail.
\<close>

fun spec_attrs_present :: "pyobj \<Rightarrow> string list \<Rightarrow> bool" where
  "spec_attrs_present m [] = True"
| "spec_attrs_present PyNone (part # rest) = False"
| "spec_attrs_present (Module attrs) (part # rest) =
     (case map_of attrs part of
        None \<Rightarrow> False
      | Some (Inl e) \<Rightarrow> False
      | Some (Inr v) \<Rightarrow> spec_attrs_present v rest)"

definition spec_resolves :: "host \<Rightarrow> string \<Rightarrow> bool" where
  "spec_resolves h package =
     (case import_module h (hd (split_on CHR ''.'' package)) of
        Inl e \<Rightarrow> False
      | Inr m \<Rightarrow> spec_attrs_present m (tl (split_on CHR ''.'' package)))"

text \<open>The lines the dependency check prints for one entry.\<close>

definition dep_report :: "host \<Rightarrow> string \<Rightarrow> line list" where
  "dep_report h package =
     (if resolves h package
      then [Success (''Package '' @ quoted package @ '' is installed'')]
      else [Error (''Package '' @ quoted package @ '' is NOT installed''),
            Info (''  Install with: pip install '' @ hd (split_on CHR ''.'' package))])"

subsection \<open>Concrete machines\<close>

text \<open>
  A machine on which everything is in order: interpreter 3.11.4, every dependency
  importable, UTF-8 on standard output, the current directory on the module path, both
  worker scripts present, and workers that stay resident and exit as soon as they are
  asked to.
\<close>

definition resident_program :: program where
  "resident_program =
     \<lparr>self_exit = None, stdout_data = [], stderr_data = [], decode_error = None,
      term_grace = 0, term_status = - 15\<rparr>"

definition good_host :: host where
  "good_host =
     \<lparr>version_major = 3, version_minor = 11, version_micro = 4,
      version = ''3.11.4 (main)'',
      executable = ''/usr/bin/python3'',
      sys_stdout = Stream (Some ''utf-8'') None,
      stderr_encoding = Some ''utf-8'',
      default_encoding = ''utf-8'',
      sys_path = [''/srv/app'', ''/usr/lib/python3.11''],
      getcwd = Inr ''/srv/app'',
      path_exists = (\<lambda>path. True),
      import_module =
        (\<lambda>name. if name = ''mcp''
                 then Inr (Module [(''server'', Inr (Module [(''fastmcp'', Inr (Module []))]))])
                 else if name = ''google'' then Inr (Module [(''genai'', Inr (Module []))])
                 else Inr (Module [])),
      subprocess_run = (\<lambda>args. Inr ''Python 3.11.4''),
      popen = (\<lambda>args env. Inr resident_program)\<rparr>"

definition init_state :: state where
  "init_state =
     \<lparr>environ = [''PATH'' \<mapsto> ''/usr/bin''], procs = [], popen_calls = [], out = []\<rparr>"

text \<open>The same machine with workers that ignore the termination request.\<close>

definition stubborn_program :: program where
  "stubborn_program = resident_program\<lparr>term_grace := 2\<rparr>"

definition stubborn_host :: host where
  "stubborn_host = good_host\<lparr>popen := (\<lambda>args env. Inr stubborn_program)\<rparr>"

text \<open>The same machine where importing \<^verbatim>\<open>anthropic\<close> raises an error that is not an
  ImportError (a RuntimeError from the package's own start-up code, say).\<close>

definition broken_import_host :: host where
  "broken_import_host =
     good_host\<lparr>import_module :=
       (\<lambda>name. if name = ''anthropic'' then Inl (OtherException ''RuntimeError: boom'')
                else import_module good_host name)\<rparr>"

text \<open>The same machine where the package \<^verbatim>\<open>google\<close> has an attribute \<^verbatim>\<open>genai\<close> whose value
  is \<open>None\<close>.\<close>

definition none_attr_host :: host where
  "none_attr_host =
     good_host\<lparr>import_module :=
       (\<lambda>name. if name = ''google'' then Inr (Module [(''genai'', Inr PyNone)])
                else import_module good_host name)\<rparr>"

text \<open>The same machine where looking up \<^verbatim>\<open>genai\<close> on the package \<^verbatim>\<open>google\<close> raises an
  error that is neither an AttributeError nor an ImportError.\<close>

definition raising_attr_host :: host where
  "raising_attr_host =
     good_host\<lparr>import_module :=
       (\<lambda>name. if name = ''google''
                then Inr (Module [(''genai'', Inl (OtherException ''RuntimeError: lazy load''))])
                else import_module good_host name)\<rparr>"

text \<open>The same machine where \<^verbatim>\<open>aiofiles\<close> is not installed.\<close>

definition missing_dep_host :: host where
  "missing_dep_host =
     good_host\<lparr>import_module :=
       (\<lambda>name. if name = ''aiofiles'' then Inl (ImportError ''No module named aiofiles'')
                else import_module good_host name)\<rparr>"

text \<open>The same machine where the user interrupts the launcher probe or the spawn, where
  there is no \<^verbatim>\<open>python\<close> command, where no worker script exists, where the spawn fails,
  and where the worker exits at once.\<close>

definition interrupted_host :: host where
  "interrupted_host = good_host\<lparr>subprocess_run := (\<lambda>args. Inl KeyboardInterrupt)\<rparr>"

definition interrupted_spawn_host :: host where
  "interrupted_spawn_host = good_host\<lparr>popen := (\<lambda>args env. Inl KeyboardInterrupt)\<rparr>"

definition no_launcher_host :: host where
  "no_launcher_host =
     good_host\<lparr>subprocess_run := (\<lambda>args. Inl (OtherException ''FileNotFoundError: python''))\<rparr>"

definition no_script_host :: host where
  "no_script_host = good_host\<lparr>path_exists := (\<lambda>path. False)\<rparr>"

definition spawn_fail_host :: host where
  "spawn_fail_host =
     good_host\<lparr>popen := (\<lambda>args env. Inl (OtherException ''PermissionError: denied''))\<rparr>"

definition exiting_program :: "int \<Rightarrow> program" where
  "exiting_program code =
     \<lparr>self_exit = Some code, stdout_data = ''ready'', stderr_data = ''Traceback'',
      decode_error = None, term_grace = 0, term_status = - 15\<rparr>"

definition exiting_host :: "int \<Rightarrow> host" where
  "exiting_host code = good_host\<lparr>popen := (\<lambda>args env. Inr (exiting_program code))\<rparr>"

text \<open>The same machine with a worker that exits at once with status 0 after writing bytes
  that are not text in the checker's locale encoding.\<close>

definition undecodable_program :: program where
  "undecodable_program =
     \<lparr>self_exit = Some 0, stdout_data = [], stderr_data = [],
      decode_error = Some (OtherException ''UnicodeDecodeError: invalid start byte''),
      term_grace = 0, term_status = - 15\<rparr>"

definition undecodable_host :: host where
  "undecodable_host = good_host\<lparr>popen := (\<lambda>args env. Inr undecodable_program)\<rparr>"

text \<open>The first worker probe of the run, started from the initial state, and the
  environment it hands to the worker.\<close>

definition first_probe :: "host \<Rightarrow> bool outcome" where
  "first_probe h =
     check_mcp_server h ''tools/command_executor.py'' ''Command Executor Server'' 3 init_state"

definition child_env :: "state \<Rightarrow> string \<Rightarrow> string option" where
  "child_env s = (environ s)(''PYTHONIOENCODING'' \<mapsto> ''utf-8'')"

text \<open>
  Machines that differ in their standard output: a strict ASCII console, which raises
  UnicodeEncodeError on each of the glyphs; no standard output at all; a stream without
  an encoding that takes any text (an in-memory text buffer); a console in Latin-1 that
  replaces what it cannot encode. Then a machine whose working directory has been
  removed while \<open>.\<close> is on the module path, and a state whose environment sets the
  override in upper case.
\<close>

definition strict_console_host :: host where
  "strict_console_host =
     good_host\<lparr>sys_stdout := Stream (Some ''ascii'') (Some (OtherException ''UnicodeEncodeError''))\<rparr>"

definition no_stdout_host :: host where
  "no_stdout_host = good_host\<lparr>sys_stdout := NoStream\<rparr>"

definition buffer_host :: host where
  "buffer_host = good_host\<lparr>sys_stdout := Stream None None\<rparr>"

definition lenient_console_host :: host where
  "lenient_console_host = good_host\<lparr>sys_stdout := Stream (Some ''iso8859-1'') None\<rparr>"

definition cwd_gone_host :: host where
  "cwd_gone_host =
     good_host\<lparr>sys_path := [''.'', ''/usr/lib/python3.11''],
               getcwd := Inl (OtherException ''FileNotFoundError: No such file or directory'')\<rparr>"

definition utf8_env_state :: state where
  "utf8_env_state = init_state\<lparr>environ := [''PYTHONIOENCODING'' \<mapsto> ''UTF-8'']\<rparr>"

section \<open>Properties\<close>

subsection \<open>Auxiliary facts\<close>

lemmas print_defs = emit_def print_header_def print_success_def print_error_def
  print_warning_def print_info_def

lemmas proc_defs = Popen_def time_sleep_def poll_def terminate_def wait_def communicate_def
  elapse_def timeout_expired_def

lemmas stdout_defs = stdout_encoding_def glyph_error_def encodes_report_def
  stdout_attribute_error_def

lemmas host_defs = good_host_def stubborn_host_def stubborn_program_def broken_import_host_def
  none_attr_host_def raising_attr_host_def missing_dep_host_def interrupted_host_def
  interrupted_spawn_host_def no_launcher_host_def no_script_host_def spawn_fail_host_def exiting_host_def
  exiting_program_def undecodable_host_def undecodable_program_def resident_program_def
  init_state_def strict_console_host_def no_stdout_host_def buffer_host_def
  lenient_console_host_def cwd_gone_host_def utf8_env_state_def

lemmas probe_eval = first_probe_def check_mcp_server_def probe_body_def cleanup_def
  cleanup_body_def Let_def print_defs proc_defs host_defs child_env_def

lemmas check_defs = check_python_version_def check_python_path_def check_dependencies_def
  check_encoding_def check_pythonpath_def version_text_def or_unknown_def try_import_def
  lower_def lower_char_def strip_def is_space_def quoted_def str_int_def digit_char_def
  required_packages_def stdout_defs

lemmas run_defs = script_def main_def run_checks_def checks_def banner_def summarise_def
  exit_code_def

lemma split_pkgs:
  "split_on CHR ''.'' ''mcp'' = [''mcp'']"
  "split_on CHR ''.'' ''mcp.server'' = [''mcp'', ''server'']"
  "split_on CHR ''.'' ''mcp.server.fastmcp'' = [''mcp'', ''server'', ''fastmcp'']"
  "split_on CHR ''.'' ''anthropic'' = [''anthropic'']"
  "split_on CHR ''.'' ''openai'' = [''openai'']"
  "split_on CHR ''.'' ''google.genai'' = [''google'', ''genai'']"
  "split_on CHR ''.'' ''aiofiles'' = [''aiofiles'']"
  by simp_all

lemmas run_eval = run_defs check_defs probe_eval split_pkgs str_nat.simps nth_append



text \<open>Printing and the process operations leave the environment mapping alone, and never
  change the environment a process was started with.\<close>

lemma penv_elapse: "penv (elapse p) = penv p"
  by (simp add: elapse_def split: option.splits)

lemma frame_print:
  "environ (emit l s) = environ s" "procs (emit l s) = procs s"
  "environ (print_header t s) = environ s" "procs (print_header t s) = procs s"
  "environ (print_success t s) = environ s" "procs (print_success t s) = procs s"
  "environ (print_error t s) = environ s" "procs (print_error t s) = procs s"
  "environ (print_warning t s) = environ s" "procs (print_warning t s) = procs s"
  "environ (print_info t s) = environ s" "procs (print_info t s) = procs s"
  by (simp_all add: print_defs)

lemma frame_time_sleep:
  "environ (time_sleep t s) = environ s"
  "map penv (procs (time_sleep t s)) = map penv (procs s)"
  by (simp_all add: time_sleep_def penv_elapse)

lemma map_penv_update:
  assumes "penv q = penv (ps ! pid)"
  shows "map penv (ps[pid := q]) = map penv ps"
proof (cases "pid < length ps")
  case True
  then show ?thesis using assms by (simp add: map_update list_update_same_conv)
next
  case False
  then show ?thesis by (simp add: list_update_beyond)
qed

lemma frame_terminate:
  "environ (terminate pid s) = environ s"
  "map penv (procs (terminate pid s)) = map penv (procs s)"
  by (simp_all add: terminate_def Let_def map_penv_update split: option.splits)

lemma frame_wait:
  "environ (snd (wait pid t s)) = environ s"
  "map penv (procs (snd (wait pid t s))) = map penv (procs s)"
  by (simp_all add: wait_def Let_def map_penv_update split: option.splits)

lemma frame_cleanup:
  "environ (cleanup process s) = environ s"
  "map penv (procs (cleanup process s)) = map penv (procs s)"
proof -
  have "environ (cleanup process s) = environ s \<and>
        map penv (procs (cleanup process s)) = map penv (procs s)"
  proof (cases process)
    case None
    then show ?thesis by (simp add: cleanup_def cleanup_body_def)
  next
    case (Some pid)
    show ?thesis
    proof (cases "poll pid s")
      case None
      obtain r s' where w: "wait pid 2 (terminate pid s) = (r, s')"
        by (cases "wait pid 2 (terminate pid s)")
      have "environ s' = environ s \<and> map penv (procs s') = map penv (procs s)"
        using frame_wait [of pid 2 "terminate pid s"] w by (simp add: frame_terminate)
      then show ?thesis
        using Some None w by (cases r) (simp_all add: cleanup_def cleanup_body_def)
    next
      case (Some c)
      then show ?thesis using \<open>process = Some pid\<close>
        by (simp add: cleanup_def cleanup_body_def)
    qed
  qed
  then show "environ (cleanup process s) = environ s"
    and "map penv (procs (cleanup process s)) = map penv (procs s)" by simp_all
qed

lemma frame_Popen:
  "environ (snd (Popen h args env s)) = environ s"
  "map penv (procs (snd (Popen h args env s))) =
     map penv (procs s) @ (case popen h args env of Inl e \<Rightarrow> [] | Inr p \<Rightarrow> [env])"
  by (simp_all add: Popen_def Let_def split: sum.splits)

lemma frame_probe_body:
  "environ (snd (snd (probe_body h server_script name t s))) = environ s \<and>
   map penv (procs (snd (snd (probe_body h server_script name t s)))) =
     map penv (procs s) @
     (case popen h [executable h, server_script] ((environ s)(''PYTHONIOENCODING'' \<mapsto> ''utf-8'')) of
        Inl e \<Rightarrow> [] | Inr p \<Rightarrow> [(environ s)(''PYTHONIOENCODING'' \<mapsto> ''utf-8'')])"
proof -
  let ?env = "(environ s)(''PYTHONIOENCODING'' \<mapsto> ''utf-8'')"
  obtain r s1 where p: "Popen h [executable h, server_script] ?env s = (r, s1)"
    by (cases "Popen h [executable h, server_script] ?env s")
  have f1: "environ s1 = environ s"
    "map penv (procs s1) = map penv (procs s) @
       (case popen h [executable h, server_script] ?env of Inl e \<Rightarrow> [] | Inr p \<Rightarrow> [?env])"
    using frame_Popen [of h "[executable h, server_script]" ?env s] p by simp_all
  show ?thesis
  proof (cases r)
    case (Inl e)
    then show ?thesis using p f1 by (simp add: probe_body_def)
  next
    case (Inr process)
    let ?s2 = "time_sleep t s1"
    show ?thesis
    proof (cases "poll process ?s2")
      case None
      let ?s4 = "terminate process (print_success (name @ '' started successfully'') ?s2)"
      obtain r5 s5 where w: "wait process 2 ?s4 = (r5, s5)"
        by (cases "wait process 2 ?s4")
      have "environ s5 = environ s1 \<and> map penv (procs s5) = map penv (procs ?s2)"
        using frame_wait [of process 2 ?s4] w
        by (simp add: frame_terminate frame_print frame_time_sleep)
      then show ?thesis
        using p Inr None w f1
        by (cases r5) (simp_all add: probe_body_def Let_def frame_time_sleep)
    next
      case (Some code)
      then show ?thesis
        using p Inr f1
        by (simp add: probe_body_def Let_def frame_time_sleep frame_print
            split: prod.splits sum.splits)
    qed
  qed
qed

lemma frame_check_mcp_server:
  "environ (snd (check_mcp_server h server_script name t s)) = environ s \<and>
   map penv (procs (snd (check_mcp_server h server_script name t s))) =
     map penv (procs s) @
     (if path_exists h server_script
      then (case popen h [executable h, server_script] ((environ s)(''PYTHONIOENCODING'' \<mapsto> ''utf-8'')) of
              Inl e \<Rightarrow> [] | Inr p \<Rightarrow> [(environ s)(''PYTHONIOENCODING'' \<mapsto> ''utf-8'')])
      else [])"
proof (cases "path_exists h server_script")
  case False
  then show ?thesis by (simp add: check_mcp_server_def Let_def frame_print)
next
  case True
  let ?s1 = "print_info (''Testing: '' @ server_script) (print_header (''5. Testing '' @ name) s)"
  obtain r process s2 where pb: "probe_body h server_script name t ?s1 = (r, process, s2)"
    by (cases "probe_body h server_script name t ?s1") auto
  have f: "environ s2 = environ s"
    "map penv (procs s2) = map penv (procs s) @
       (case popen h [executable h, server_script] ((environ s)(''PYTHONIOENCODING'' \<mapsto> ''utf-8'')) of
          Inl e \<Rightarrow> [] | Inr p \<Rightarrow> [(environ s)(''PYTHONIOENCODING'' \<mapsto> ''utf-8'')])"
    using frame_probe_body [of h server_script name t ?s1] pb
    by (simp_all add: frame_print cong: sum.case_cong)
  show ?thesis
    using True pb f
    by (cases r) (simp_all add: check_mcp_server_def Let_def frame_cleanup frame_print)
qed



text \<open>Splitting a package name, walking attributes, and one round of the dependency
  loop.\<close>

lemma split_on_nonempty: "split_on c s \<noteq> []"
  by (induction s) (auto split: list.splits)

lemma split_on_single: "length (split_on c s) = 1 \<Longrightarrow> split_on c s = [s]"
proof (induction s)
  case Nil
  then show ?case by simp
next
  case (Cons x xs)
  show ?case
  proof (cases "x = c")
    case True
    then show ?thesis using Cons.prems split_on_nonempty [of c xs] by simp
  next
    case False
    obtain y ys where y: "split_on c xs = y # ys"
      using split_on_nonempty [of c xs] by (cases "split_on c xs") auto
    with False Cons.prems have "ys = []" by simp
    with y Cons.IH have "y = xs" by simp
    with y False \<open>ys = []\<close> show ?thesis by simp
  qed
qed

lemma walk_attrs_ok:
  "(\<exists>m'. walk_attrs package m parts = Inr m') = attrs_not_none m parts"
  by (induction parts arbitrary: m) (auto split: sum.splits)

lemma try_import_resolves: "(try_import h package = Inr ()) = resolves h package"
proof (cases "length (split_on CHR ''.'' package) = 1")
  case True
  then have "split_on CHR ''.'' package = [package]" by (rule split_on_single)
  then show ?thesis
    by (simp add: try_import_def resolves_def split: sum.splits)
next
  case False
  show ?thesis
  proof (cases "import_module h (hd (split_on CHR ''.'' package))")
    case (Inl e)
    with False show ?thesis by (simp add: try_import_def resolves_def Let_def)
  next
    case (Inr m)
    with False walk_attrs_ok [of package m "tl (split_on CHR ''.'' package)"] show ?thesis
      by (auto simp add: try_import_def resolves_def Let_def split: sum.splits)
  qed
qed

lemma dep_loop_pass:
  "(fst (dep_loop h pkgs all_ok s) = Inr True) = (all_ok \<and> (\<forall>pkg\<in>set pkgs. resolves h pkg))"
proof (induction pkgs arbitrary: all_ok s)
  case Nil
  then show ?case by simp
next
  case (Cons package rest)
  show ?case
  proof (cases "try_import h package")
    case (Inl e)
    then have "\<not> resolves h package"
      using try_import_resolves [of h package] by simp
    with Inl Cons.IH show ?thesis by simp
  next
    case (Inr u)
    then have "resolves h package"
      using try_import_resolves [of h package] by simp
    with Inr Cons.IH show ?thesis by simp
  qed
qed

lemma dep_loop_returns:
  "fst (dep_loop h pkgs all_ok s) = Inr b \<Longrightarrow>
   b = (all_ok \<and> (\<forall>pkg\<in>set pkgs. resolves h pkg)) \<and>
   out (snd (dep_loop h pkgs all_ok s)) = out s @ concat (map (dep_report h) pkgs)"
proof (induction pkgs arbitrary: all_ok s)
  case Nil
  then show ?case by auto
next
  case (Cons package rest)
  show ?case
  proof (cases "try_import h package")
    case (Inl e)
    then have nr: "\<not> resolves h package"
      using try_import_resolves [of h package] by simp
    have ie: "is_ImportError e"
      using Cons.prems Inl by (cases "is_ImportError e") simp_all
    have dr: "dep_report h package =
        [Error (''Package '' @ quoted package @ '' is NOT installed''),
         Info (''  Install with: pip install '' @ hd (split_on CHR ''.'' package))]"
      using nr by (simp add: dep_report_def)
    let ?s' = "print_info (''  Install with: pip install '' @ hd (split_on CHR ''.'' package))
                 (print_error (''Package '' @ quoted package @ '' is NOT installed'') s)"
    have step: "dep_loop h (package # rest) all_ok s = dep_loop h rest False ?s'"
      using Inl ie by simp
    from Cons.prems step have "fst (dep_loop h rest False ?s') = Inr b" by simp
    from Cons.IH [OF this] show ?thesis
      unfolding step using nr dr by (simp add: print_defs)
  next
    case (Inr u)
    then have r: "resolves h package"
      using try_import_resolves [of h package] by simp
    then have dr: "dep_report h package =
        [Success (''Package '' @ quoted package @ '' is installed'')]"
      by (simp add: dep_report_def)
    let ?s' = "print_success (''Package '' @ quoted package @ '' is installed'') s"
    have step: "dep_loop h (package # rest) all_ok s = dep_loop h rest all_ok ?s'"
      using Inr by simp
    from Cons.prems step have "fst (dep_loop h rest all_ok ?s') = Inr b" by simp
    from Cons.IH [OF this] show ?thesis
      unfolding step using r dr by (simp add: print_defs)
  qed
qed

lemma dep_loop_raises:
  "fst (dep_loop h pkgs all_ok s) = Inl e \<Longrightarrow>
   \<not> is_ImportError e \<and> (\<exists>pkg\<in>set pkgs. try_import h pkg = Inl e)"
proof (induction pkgs arbitrary: all_ok s)
  case Nil
  then show ?case by simp
next
  case (Cons package rest)
  show ?case
  proof (cases "try_import h package")
    case (Inr u)
    with Cons show ?thesis by simp
  next
    case (Inl e')
    show ?thesis
    proof (cases "is_ImportError e'")
      case True
      with Inl Cons show ?thesis by simp
    next
      case False
      with Inl Cons.prems have "e = e'" by simp
      with False Inl show ?thesis by simp
    qed
  qed
qed

lemma dep_loop_total:
  assumes "\<forall>pkg\<in>set pkgs. \<forall>e. try_import h pkg = Inl e \<longrightarrow> is_ImportError e"
  shows "\<exists>b. fst (dep_loop h pkgs all_ok s) = Inr b"
proof (cases "fst (dep_loop h pkgs all_ok s)")
  case (Inl e)
  from dep_loop_raises [OF this] assms show ?thesis by blast
next
  case (Inr b)
  then show ?thesis by simp
qed




lemma run_list_raises_main: "fst (run_checks h s) = Inl e \<Longrightarrow> fst (main h s) = Inl e"
  by (cases "run_checks h s") (simp add: main_def)









lemma filter_all: "(length (filter P xs) = length xs) = (\<forall>x\<in>set xs. P x)"
proof (induction xs)
  case Nil
  then show ?case by simp
next
  case (Cons x xs)
  have "length (filter P xs) \<noteq> Suc (length xs)"
    using length_filter_le [of P xs] by linarith
  then show ?case using Cons by auto
qed




lemma run_checks_good:
  "fst (run_checks good_host init_state) =
     Inr [(''Python Version'', True), (''Python Path'', True), (''Dependencies'', True),
          (''Encoding'', True), (''PYTHONPATH'', True), (''Command Executor'', True),
          (''Code Implementation'', True)]"
  by (simp add: run_eval)

lemma run_checks_missing_dep:
  "fst (run_checks missing_dep_host init_state) =
     Inr [(''Python Version'', True), (''Python Path'', True), (''Dependencies'', False),
          (''Encoding'', True), (''PYTHONPATH'', True), (''Command Executor'', True),
          (''Code Implementation'', True)]"
  by (simp add: run_eval)

lemma run_checks_broken:
  "fst (run_checks broken_import_host init_state) = Inl (OtherException ''RuntimeError: boom'')"
  by (simp add: run_eval)

lemma run_checks_interrupted:
  "fst (run_checks interrupted_host init_state) = Inl KeyboardInterrupt"
  by (simp add: run_eval)

subsection \<open>The run as a whole\<close>




subsection \<open>Errors inside a check\<close>




subsection \<open>The dependency check\<close>

text \<open>
  Claim C5 states that the dependency check returns pass exactly when every entry
  resolves, an entry failing only when its module does not import or an attribute on its
  path is absent, and that with one entry failing the result is fail and a line is still
  reported for every entry. On \<open>none_attr_host\<close> every attribute named by the list is
  present, one of them with the value \<open>None\<close>, and the check returns fail. On
  \<open>broken_import_host\<close> the entry \<^verbatim>\<open>anthropic\<close> does not resolve, the check returns no
  result at all, and nothing is reported for that entry or for the three after it. On
  \<open>raising_attr_host\<close> every import succeeds, the lookup of \<^verbatim>\<open>genai\<close> raises an error
  that is not an AttributeError, and again the check returns no result.
\<close>

theorem check_dependencies_counterexample:
  "list_all (spec_resolves none_attr_host) required_packages \<and>
   fst (check_dependencies none_attr_host init_state) = Inr False \<and>
   \<not> spec_resolves broken_import_host ''anthropic'' \<and>
   check_dependencies broken_import_host init_state =
     (Inl (OtherException ''RuntimeError: boom''),
      init_state\<lparr>out :=
        [Header ''3. Checking Required Dependencies'',
         Success (''Package '' @ quoted ''mcp'' @ '' is installed''),
         Success (''Package '' @ quoted ''mcp.server'' @ '' is installed''),
         Success (''Package '' @ quoted ''mcp.server.fastmcp'' @ '' is installed'')]\<rparr>) \<and>
   \<not> spec_resolves raising_attr_host ''google.genai'' \<and>
   import_module raising_attr_host ''google'' =
     Inr (Module [(''genai'', Inl (OtherException ''RuntimeError: lazy load''))]) \<and>
   check_dependencies raising_attr_host init_state =
     (Inl (OtherException ''RuntimeError: lazy load''),
      init_state\<lparr>out :=
        [Header ''3. Checking Required Dependencies'',
         Success (''Package '' @ quoted ''mcp'' @ '' is installed''),
         Success (''Package '' @ quoted ''mcp.server'' @ '' is installed''),
         Success (''Package '' @ quoted ''mcp.server.fastmcp'' @ '' is installed''),
         Success (''Package '' @ quoted ''anthropic'' @ '' is installed''),
         Success (''Package '' @ quoted ''openai'' @ '' is installed'')]\<rparr>)"
  by (simp add: required_packages_def spec_resolves_def split_pkgs check_dependencies_def
      try_import_def Let_def print_defs host_defs)

text \<open>
  Claim C5, amended. The dependency check returns pass exactly when every entry of the
  fixed list resolves, where an entry resolves when its top-level module imports and each
  further name of the entry is an attribute whose lookup returns a value other than
  \<open>None\<close>. When resolving an entry, by the import and the attribute lookups of lines 97
  to 106, raises nothing but ImportError, the check returns a result, which is fail as
  soon as one entry does not resolve, and it reports every entry of the list, in order: a
  success line for an entry that resolves, an error line and an install hint for one
  that does not.
\<close>

theorem check_dependencies_resolves:
  "(fst (check_dependencies h s) = Inr True) = (\<forall>pkg\<in>set required_packages. resolves h pkg) \<and>
   ((\<forall>pkg\<in>set required_packages. \<forall>e. try_import h pkg = Inl e \<longrightarrow> is_ImportError e) \<longrightarrow>
    fst (check_dependencies h s) = Inr (\<forall>pkg\<in>set required_packages. resolves h pkg) \<and>
    out (snd (check_dependencies h s)) =
      out s @ Header ''3. Checking Required Dependencies'' #
        concat (map (dep_report h) required_packages))"
proof -
  let ?s0 = "print_header ''3. Checking Required Dependencies'' s"
  have a: "(fst (check_dependencies h s) = Inr True) =
           (\<forall>pkg\<in>set required_packages. resolves h pkg)"
    by (simp add: check_dependencies_def dep_loop_pass)
  have b: "fst (check_dependencies h s) = Inr (\<forall>pkg\<in>set required_packages. resolves h pkg) \<and>
    out (snd (check_dependencies h s)) =
      out s @ Header ''3. Checking Required Dependencies'' #
        concat (map (dep_report h) required_packages)"
    if t: "\<forall>pkg\<in>set required_packages. \<forall>e. try_import h pkg = Inl e \<longrightarrow> is_ImportError e"
  proof -
    obtain b where r: "fst (dep_loop h required_packages True ?s0) = Inr b"
      using dep_loop_total [OF t] by blast
    from dep_loop_returns [OF r] r show ?thesis
      by (simp add: check_dependencies_def print_defs)
  qed
  from a b show ?thesis by blast
qed

theorem check_dependencies_resolves_witness:
  "import_module missing_dep_host ''aiofiles'' = Inl (ImportError ''No module named aiofiles'') \<and>
   is_ImportError (ImportError ''No module named aiofiles'') \<and>
   \<not> resolves missing_dep_host ''aiofiles'' \<and>
   fst (check_dependencies missing_dep_host init_state) = Inr False \<and>
   length (out (snd (check_dependencies missing_dep_host init_state))) = 9"
proof -
  have a: "\<forall>pkg\<in>set required_packages.
      \<forall>e. try_import missing_dep_host pkg = Inl e \<longrightarrow> is_ImportError e"
    by (simp add: required_packages_def try_import_def split_pkgs missing_dep_host_def
        good_host_def)
  have i: "import_module missing_dep_host ''aiofiles'' = Inl (ImportError ''No module named aiofiles'')"
    by (simp add: missing_dep_host_def good_host_def)
  have r: "\<not> resolves missing_dep_host ''aiofiles''"
    by (simp add: resolves_def split_pkgs missing_dep_host_def good_host_def)
  have l: "length (concat (map (dep_report missing_dep_host) required_packages)) = 8"
    by (simp add: required_packages_def dep_report_def resolves_def split_pkgs
        missing_dep_host_def good_host_def)
  have m: "''aiofiles'' \<in> set required_packages"
    by (simp add: required_packages_def)
  from check_dependencies_resolves [of missing_dep_host init_state] a
  have "fst (check_dependencies missing_dep_host init_state) =
          Inr (\<forall>pkg\<in>set required_packages. resolves missing_dep_host pkg) \<and>
        out (snd (check_dependencies missing_dep_host init_state)) =
          out init_state @ Header ''3. Checking Required Dependencies'' #
            concat (map (dep_report missing_dep_host) required_packages)"
    by blast
  with i r l m show ?thesis
    by (auto simp add: init_state_def)
qed

subsection \<open>The encoding check\<close>

text \<open>
  Claim C4. The encoding check returns pass exactly when the encoding of standard output
  equals \<open>utf-8\<close> up to letter case, or the variable PYTHONIOENCODING is set and equals
  \<open>utf-8\<close> up to letter case; in every other situation, a stream without an encoding
  included, it returns fail. The function aims at this: it ends with the two branches
  that return pass and fail, and it replaces a missing encoding by \<open>unknown\<close>. It does
  so on a stream that takes the report, whatever the encoding it declares. On the
  console the fail side is about, a strict one that is not UTF-8, the check does not
  return fail: its first information line starts with a glyph the console cannot encode,
  the call of \<^verbatim>\<open>print\<close> raises UnicodeEncodeError, and the function has no handler.
  Where the interpreter has no standard output, reading its encoding raises
  AttributeError before anything is compared.
\<close>

theorem check_encoding_strict_console:
  "stdout_encoding strict_console_host = Some ''ascii'' \<and>
   environ init_state ''PYTHONIOENCODING'' = None \<and>
   check_encoding strict_console_host init_state =
     (Inl (OtherException ''UnicodeEncodeError''),
      init_state\<lparr>out := [Header ''4. Checking Encoding Configuration'']\<rparr>) \<and>
   fst (check_encoding no_stdout_host init_state) = Inl stdout_attribute_error \<and>
   fst (check_encoding lenient_console_host init_state) = Inr False \<and>
   fst (check_encoding buffer_host init_state) = Inr False \<and>
   fst (check_encoding buffer_host utf8_env_state) = Inr True \<and>
   fst (check_encoding good_host init_state) = Inr True"
  by (simp add: check_encoding_def or_unknown_def Let_def print_defs stdout_defs host_defs
      lower_def lower_char_def)

subsection \<open>The exit code\<close>

text \<open>
  Claim C7. The exit code is 0 exactly when the checks ran to the end and every collected
  result is true. It is 1 when at least one collected result is false, and also when an
  exception leaves the checks, in which case the trace is the last thing printed. It is
  130 when the run is interrupted by the user.
\<close>

theorem exit_code_cases:
  "(exit_code h s = 0) =
     (\<exists>results. fst (run_checks h s) = Inr results \<and> (\<forall>r\<in>set results. snd r)) \<and>
   (\<forall>results. fst (run_checks h s) = Inr results \<and> (\<exists>r\<in>set results. \<not> snd r)
      \<longrightarrow> exit_code h s = 1) \<and>
   (\<forall>e. fst (run_checks h s) = Inl e \<and> is_Exception e
      \<longrightarrow> exit_code h s = 1 \<and> last (out (snd (script h s))) = Traceback e) \<and>
   (fst (run_checks h s) = Inl KeyboardInterrupt \<longrightarrow> exit_code h s = 130)"
proof -
  obtain r s' where rc: "run_checks h s = (r, s')" by (cases "run_checks h s")
  show ?thesis
  proof (cases r)
    case (Inl e)
    then show ?thesis using rc
      by (cases e) (simp_all add: exit_code_def script_def main_def print_defs)
  next
    case (Inr results)
    have "(length (filter snd results) = length results) = (\<forall>r\<in>set results. snd r)"
      by (rule filter_all)
    then show ?thesis using rc Inr
      by (auto simp add: exit_code_def script_def main_def summarise_def Let_def)
  qed
qed

theorem exit_code_cases_witness:
  "exit_code good_host init_state = 0 \<and>
   exit_code missing_dep_host init_state = 1 \<and>
   is_Exception (OtherException ''RuntimeError: boom'') \<and>
   exit_code broken_import_host init_state = 1 \<and>
   last (out (snd (script broken_import_host init_state))) =
     Traceback (OtherException ''RuntimeError: boom'') \<and>
   exit_code interrupted_host init_state = 130"
  using exit_code_cases [of good_host init_state] exit_code_cases [of missing_dep_host init_state]
    exit_code_cases [of broken_import_host init_state]
    exit_code_cases [of interrupted_host init_state]
  unfolding run_checks_good run_checks_missing_dep run_checks_broken run_checks_interrupted
  by simp

subsection \<open>The worker probe\<close>

text \<open>
  Claim C3. A probe on an existing script whose process is still running when polled
  returns pass, and the process has been terminated by the time the probe returns. The
  code aims at this: in that branch it prints that the worker started successfully, asks
  it to terminate, waits, and returns \<open>True\<close>. It misses it for a worker that does not
  exit within the two-second wait: the wait of line 172 raises TimeoutExpired inside the
  \<^verbatim>\<open>try\<close>, the handler of line 188 turns that into the result fail, the clean-up asks
  for termination once more and swallows the second time-out, and the worker is still
  running when the probe returns. On \<open>stubborn_host\<close>:
\<close>

theorem probe_stubborn_worker:
  "path_exists stubborn_host ''tools/command_executor.py'' \<and>
   popen stubborn_host [executable stubborn_host, ''tools/command_executor.py'']
     (child_env init_state) = Inr stubborn_program \<and>
   self_exit stubborn_program = None \<and>
   poll 0 (time_sleep 3 (snd (Popen stubborn_host
             [executable stubborn_host, ''tools/command_executor.py'']
             (child_env init_state) init_state))) = None \<and>
   fst (first_probe stubborn_host) = Inr False \<and>
   Success ''Command Executor Server started successfully''
     \<in> set (out (snd (first_probe stubborn_host))) \<and>
   status (procs (snd (first_probe stubborn_host)) ! 0) = None"
  by (simp add: probe_eval)

text \<open>
  Claim C6 states that a probe on an existing script whose process has exited when polled
  returns pass for exit status 0 and shows the captured standard output. On
  \<open>undecodable_host\<close> the worker exits with status 0 after writing bytes that are not
  text in the checker's encoding; reading the output back raises UnicodeDecodeError
  inside the \<^verbatim>\<open>try\<close>, the handler returns fail, and none of the output is shown.
\<close>

theorem probe_exited_counterexample:
  "path_exists undecodable_host ''tools/command_executor.py'' \<and>
   popen undecodable_host [executable undecodable_host, ''tools/command_executor.py'']
     (child_env init_state) = Inr undecodable_program \<and>
   self_exit undecodable_program = Some 0 \<and>
   fst (first_probe undecodable_host) = Inr False \<and>
   out (snd (first_probe undecodable_host)) =
     [Header ''5. Testing Command Executor Server'',
      Info ''Testing: tools/command_executor.py'',
      Error ''Failed to test Command Executor Server: UnicodeDecodeError: invalid start byte'']"
  by (simp add: probe_eval)

text \<open>
  Claim C6, amended. For a worker probe on an existing script whose process has exited
  when it is polled and whose captured output is read back without error: with exit
  status 0 the probe returns pass, and what it prints of the captured standard output is
  its first 500 characters at most; with any other exit status the probe returns fail,
  and what it prints of the captured standard error is its first 500 characters at most.
  When reading the captured output raises an exception, the probe returns fail whatever
  the exit status, and prints the exception in place of the output.
\<close>

theorem probe_exited:
  assumes "path_exists h server_script"
    and "popen h [executable h, server_script] (child_env s) = Inr p"
    and "self_exit p = Some code"
  shows "(decode_error p = None \<longrightarrow>
      fst (check_mcp_server h server_script server_name timeout s) = Inr (code = 0) \<and>
      out (snd (check_mcp_server h server_script server_name timeout s)) =
        out s @ [Header (''5. Testing '' @ server_name), Info (''Testing: '' @ server_script)] @
        (if code = 0
         then Warning (server_name @ '' exited normally (might be waiting for input)'') #
              (if stdout_data p = [] then []
               else [Info (''stdout:'' @ [CHR 0x0A] @ take 500 (stdout_data p))])
         else Error (server_name @ '' failed to start (exit code: '' @ str_int code @ '')'') #
              (if stderr_data p = [] then []
               else [Error (''stderr:'' @ [CHR 0x0A] @ take 500 (stderr_data p))])) \<and>
      length (take 500 (stdout_data p)) \<le> 500 \<and> length (take 500 (stderr_data p)) \<le> 500) \<and>
     (\<forall>e. decode_error p = Some e \<and> is_Exception e \<longrightarrow>
      fst (check_mcp_server h server_script server_name timeout s) = Inr False \<and>
      out (snd (check_mcp_server h server_script server_name timeout s)) =
        out s @ [Header (''5. Testing '' @ server_name), Info (''Testing: '' @ server_script),
                 Error (''Failed to test '' @ server_name @ '': '' @ exn_str e)])"
  using assms
  by (simp add: check_mcp_server_def probe_body_def Let_def print_defs proc_defs
      cleanup_def cleanup_body_def nth_append child_env_def)

theorem probe_exited_witness:
  "path_exists (exiting_host 0) ''tools/command_executor.py'' \<and>
   popen (exiting_host 0) [executable (exiting_host 0), ''tools/command_executor.py'']
     (child_env init_state) = Inr (exiting_program 0) \<and>
   self_exit (exiting_program 0) = Some 0 \<and> decode_error (exiting_program 0) = None \<and>
   fst (first_probe (exiting_host 0)) = Inr True \<and>
   path_exists (exiting_host 3) ''tools/command_executor.py'' \<and>
   popen (exiting_host 3) [executable (exiting_host 3), ''tools/command_executor.py'']
     (child_env init_state) = Inr (exiting_program 3) \<and>
   self_exit (exiting_program 3) = Some 3 \<and> decode_error (exiting_program 3) = None \<and>
   fst (first_probe (exiting_host 3)) = Inr False \<and>
   decode_error undecodable_program =
     Some (OtherException ''UnicodeDecodeError: invalid start byte'') \<and>
   is_Exception (OtherException ''UnicodeDecodeError: invalid start byte'') \<and>
   fst (first_probe undecodable_host) = Inr False"
proof -
  have a: "path_exists (exiting_host c) ''tools/command_executor.py''"
    and b: "popen (exiting_host c) [executable (exiting_host c), ''tools/command_executor.py'']
              (child_env init_state) = Inr (exiting_program c)"
    and c: "self_exit (exiting_program c) = Some c"
    and d: "decode_error (exiting_program c) = None" for c
    by (simp_all add: host_defs)
  have a': "path_exists undecodable_host ''tools/command_executor.py''"
    and b': "popen undecodable_host [executable undecodable_host, ''tools/command_executor.py'']
              (child_env init_state) = Inr undecodable_program"
    and c': "self_exit undecodable_program = Some 0"
    and d': "decode_error undecodable_program =
               Some (OtherException ''UnicodeDecodeError: invalid start byte'')"
    by (simp_all add: host_defs)
  have e: "is_Exception (OtherException ''UnicodeDecodeError: invalid start byte'')"
    by simp
  from probe_exited [OF a b c, of 0 "''Command Executor Server''" 3] d
  have r0: "fst (first_probe (exiting_host 0)) = Inr True"
    by (simp add: first_probe_def)
  from probe_exited [OF a b c, of 3 "''Command Executor Server''" 3] d
  have r3: "fst (first_probe (exiting_host 3)) = Inr False"
    by (simp add: first_probe_def)
  from probe_exited [OF a' b' c', of "''Command Executor Server''" 3] d' e
  have ru: "fst (first_probe undecodable_host) = Inr False"
    by (simp add: first_probe_def)
  from a b c d r0 r3 d' e ru show ?thesis by simp
qed

text \<open>
  Claim C8. A worker probe whose script path does not exist returns fail at once and
  creates no subprocess: the process table is unchanged and the spawn operation is not
  invoked.
\<close>

theorem probe_missing_script:
  "\<not> path_exists h server_script \<Longrightarrow>
   fst (check_mcp_server h server_script server_name timeout s) = Inr False \<and>
   procs (snd (check_mcp_server h server_script server_name timeout s)) = procs s \<and>
   popen_calls (snd (check_mcp_server h server_script server_name timeout s)) = popen_calls s"
  by (simp add: check_mcp_server_def Let_def print_defs)

theorem probe_missing_script_witness:
  "\<not> path_exists no_script_host ''tools/command_executor.py'' \<and>
   fst (first_probe no_script_host) = Inr False \<and>
   procs (snd (first_probe no_script_host)) = [] \<and>
   popen_calls (snd (first_probe no_script_host)) = []"
proof -
  have h: "\<not> path_exists no_script_host ''tools/command_executor.py''"
    by (simp add: host_defs)
  show ?thesis
    using h probe_missing_script [OF h, of "''Command Executor Server''" 3 init_state]
    by (simp add: init_state_def first_probe_def)
qed

text \<open>
  Claim C9. A worker probe sets PYTHONIOENCODING to \<open>utf-8\<close> in the environment of the
  child only: the checker's own environment mapping is the same after the probe, and
  every process the probe has added to the table sees \<open>utf-8\<close> for that variable and
  the checker's value for every other one.
\<close>

theorem probe_env_frame:
  "environ (snd (check_mcp_server h server_script server_name timeout s)) = environ s \<and>
   (\<forall>i. length (procs s) \<le> i \<and>
        i < length (procs (snd (check_mcp_server h server_script server_name timeout s))) \<longrightarrow>
        penv (procs (snd (check_mcp_server h server_script server_name timeout s)) ! i)
          ''PYTHONIOENCODING'' = Some ''utf-8'' \<and>
        (\<forall>k. k \<noteq> ''PYTHONIOENCODING'' \<longrightarrow>
           penv (procs (snd (check_mcp_server h server_script server_name timeout s)) ! i) k =
             environ s k))"
proof -
  let ?s' = "snd (check_mcp_server h server_script server_name timeout s)"
  let ?env = "(environ s)(''PYTHONIOENCODING'' \<mapsto> ''utf-8'')"
  have f: "environ ?s' = environ s"
    "map penv (procs ?s') = map penv (procs s) @
       (if path_exists h server_script
        then (case popen h [executable h, server_script] ?env of Inl e \<Rightarrow> [] | Inr p \<Rightarrow> [?env])
        else [])"
    using frame_check_mcp_server [of h server_script server_name timeout s] by simp_all
  have "penv (procs ?s' ! i) = ?env" if "length (procs s) \<le> i" "i < length (procs ?s')" for i
  proof -
    have "penv (procs ?s' ! i) = map penv (procs ?s') ! i"
      using that by simp
    also have "\<dots> = ?env"
    proof -
      have len: "length (map penv (procs ?s')) = length (procs ?s')" by simp
      show ?thesis
        using that len unfolding f(2)
        by (auto simp: nth_append split: if_splits sum.splits)
    qed
    finally show ?thesis .
  qed
  then show ?thesis using f(1) by simp
qed

theorem probe_env_frame_witness:
  "environ (snd (first_probe good_host)) = environ init_state \<and>
   length (procs init_state) \<le> 0 \<and> 0 < length (procs (snd (first_probe good_host))) \<and>
   penv (procs (snd (first_probe good_host)) ! 0) ''PYTHONIOENCODING'' = Some ''utf-8'' \<and>
   penv (procs (snd (first_probe good_host)) ! 0) ''PATH'' = Some ''/usr/bin'' \<and>
   environ init_state ''PYTHONIOENCODING'' = None"
proof -
  have l: "length (procs init_state) \<le> 0 \<and> 0 < length (procs (snd (first_probe good_host)))"
    by (simp add: probe_eval)
  have e: "environ init_state ''PATH'' = Some ''/usr/bin'' \<and>
           environ init_state ''PYTHONIOENCODING'' = None"
    by (simp add: init_state_def)
  show ?thesis
    using l e
      probe_env_frame [of good_host "''tools/command_executor.py''" "''Command Executor Server''"
        3 init_state]
    unfolding first_probe_def by auto
qed

text \<open>
  Claim C10. When the spawn itself raises an exception, the probe returns fail and
  nothing else escapes: the variable \<^verbatim>\<open>process\<close> was never bound, the clean-up body
  raises UnboundLocalError for that reason, and the clean-up block swallows it, leaving
  the state as it was.
\<close>

theorem probe_spawn_raises:
  assumes "path_exists h server_script"
    and "popen h [executable h, server_script] (child_env s) = Inl e"
    and "is_Exception e"
  shows "fst (check_mcp_server h server_script server_name timeout s) = Inr False \<and>
     procs (snd (check_mcp_server h server_script server_name timeout s)) = procs s \<and>
     fst (snd (probe_body h server_script server_name timeout
                 (print_info (''Testing: '' @ server_script)
                    (print_header (''5. Testing '' @ server_name) s)))) = None \<and>
     (\<forall>s'. \<exists>m. fst (cleanup_body None s') = Inl (UnboundLocalError m)) \<and>
     (\<forall>s'. cleanup None s' = s')"
  using assms
  by (simp add: check_mcp_server_def probe_body_def Let_def print_defs proc_defs
      cleanup_def cleanup_body_def child_env_def)

theorem probe_spawn_raises_witness:
  "path_exists spawn_fail_host ''tools/command_executor.py'' \<and>
   popen spawn_fail_host [executable spawn_fail_host, ''tools/command_executor.py'']
     (child_env init_state) = Inl (OtherException ''PermissionError: denied'') \<and>
   is_Exception (OtherException ''PermissionError: denied'') \<and>
   fst (first_probe spawn_fail_host) = Inr False \<and>
   procs (snd (first_probe spawn_fail_host)) = []"
proof -
  have a: "path_exists spawn_fail_host ''tools/command_executor.py''"
    and b: "popen spawn_fail_host [executable spawn_fail_host, ''tools/command_executor.py'']
              (child_env init_state) = Inl (OtherException ''PermissionError: denied'')"
    and c: "is_Exception (OtherException ''PermissionError: denied'')"
    by (simp_all add: host_defs)
  show ?thesis
    using a b c probe_spawn_raises [OF a b c, of "''Command Executor Server''" 3]
    by (simp add: first_probe_def init_state_def)
qed

end
